theory Spec2Isabelle
  imports Main "HOL-Library.Char_ord" "HOL-Library.List_Lexorder" "HOL-Library.Multiset"
begin

section \<open>Values, records and errors\<close>

text \<open>
  The values that \<^verbatim>\<open>json.loads\<close> builds for the fields of a notification: \<^verbatim>\<open>None\<close> (a JSON
  null), a truth value, an integer, a string, a list (a JSON array) and a dict (a JSON
  object, with its keys in the order of insertion, each key once). A string is the list
  of its UTF-8 bytes, whose lexicographic order is the order of the code points. A list
  or a dict carries the text that \<^verbatim>\<open>str\<close> gives for it as its first argument: that text
  quotes the strings inside as \<^verbatim>\<open>repr\<close> does, which is not computed here. Floating point
  numbers are outside this type. An integer of a decoded body has at most as many
  digits as \<^verbatim>\<open>sys.int_max_str_digits\<close> allows, since \<^verbatim>\<open>json.loads\<close> raises for a longer one.
  A record is a Python \<^verbatim>\<open>dict\<close> from field names to values.
\<close>

datatype pyval =
    PNone
  | PBool bool
  | PInt int
  | PStr string
  | PList string "pyval list"
  | PDict string "(string \<times> pyval) list"

type_synonym row = "string \<rightharpoonup> pyval"

text \<open>The exceptions that the program can meet, as values.\<close>

datatype error =
    TypeError
  | ValueError
  | AttributeError
  | OverflowError
  | OSError
  | ConnectionError
  | KeyboardInterrupt
  | SystemExit int

text \<open>\<^verbatim>\<open>r.get(k)\<close>: the value of the field, \<^verbatim>\<open>None\<close> when the key is missing.\<close>

definition pyget :: "row \<Rightarrow> string \<Rightarrow> pyval" where
  "pyget r k = (case r k of None \<Rightarrow> PNone | Some v \<Rightarrow> v)"

section \<open>Formatting of integers and values\<close>

definition digit_char :: "nat \<Rightarrow> char" where
  "digit_char d = char_of (48 + d)"

fun nat_digits :: "nat \<Rightarrow> string" where
  "nat_digits n = (if n < 10 then [digit_char n] else nat_digits (n div 10) @ [digit_char (n mod 10)])"

declare nat_digits.simps [simp del]

text \<open>\<^verbatim>\<open>str(i)\<close> of an integer.\<close>

definition int_str :: "int \<Rightarrow> string" where
  "int_str i = (if i < 0 then CHR ''-'' # nat_digits (nat (- i)) else nat_digits (nat i))"

text \<open>How an f-string renders a value: \<^verbatim>\<open>f"{v}"\<close>.\<close>

fun fstr :: "pyval \<Rightarrow> string" where
  "fstr PNone = ''None''"
| "fstr (PBool b) = (if b then ''True'' else ''False'')"
| "fstr (PInt i) = int_str i"
| "fstr (PStr s) = s"
| "fstr (PList text items) = text"
| "fstr (PDict text items) = text"

text \<open>\<^verbatim>\<open>f"{n:02d}"\<close> of a natural number: at least two digits, padded with a zero.\<close>

definition fmt_02d :: "nat \<Rightarrow> string" where
  "fmt_02d n = (if n < 10 then CHR ''0'' # nat_digits n else nat_digits n)"

section \<open>The colour codes of colorama\<close>

definition ESC :: char where "ESC = CHR 0x1B"

definition Fore_GREEN :: string where "Fore_GREEN = ESC # ''[32m''"
definition Fore_YELLOW :: string where "Fore_YELLOW = ESC # ''[33m''"
definition Fore_RED :: string where "Fore_RED = ESC # ''[31m''"
definition Fore_CYAN :: string where "Fore_CYAN = ESC # ''[36m''"
definition Fore_RESET :: string where "Fore_RESET = ESC # ''[39m''"
definition Style_BRIGHT :: string where "Style_BRIGHT = ESC # ''[1m''"
definition Style_RESET_ALL :: string where "Style_RESET_ALL = ESC # ''[0m''"
definition clear_screen :: string where "clear_screen = ESC # ''[2J''"

section \<open>generate_url\<close>

text \<open>
  The host and the service come from \<^verbatim>\<open>row.get\<close>, so either may be \<^verbatim>\<open>None\<close>; the
  f-string renders whatever it is given.
\<close>

definition generate_url :: "string \<Rightarrow> pyval \<Rightarrow> pyval \<Rightarrow> string" where
  "generate_url instance host service =
     (if service = PNone
      then instance @ ''/dashboard#!/monitoring/host/show?host='' @ fstr host
      else instance @ ''/dashboard#!/monitoring/service/show?host='' @ fstr host
             @ ''&service='' @ fstr service)"

section \<open>state_string\<close>

text \<open>The dictionary \<^verbatim>\<open>states\<close>; its keys are strings.\<close>

definition states :: "pyval \<rightharpoonup> string" where
  "states = [
     PStr ''0'' \<mapsto> Fore_GREEN @ ''OK'' @ Fore_RESET,
     PStr ''1'' \<mapsto> Fore_YELLOW @ ''WARN'' @ Fore_RESET,
     PStr ''2'' \<mapsto> Fore_RED @ ''CRIT'' @ Fore_RESET,
     PStr ''3'' \<mapsto> Fore_CYAN @ ''UNKN'' @ Fore_RESET]"

text \<open>
  \<^verbatim>\<open>states.get(state, state)\<close> hashes its key: a list or a dict has no hash, and the
  lookup raises \<^verbatim>\<open>TypeError\<close>. No value other than a string is equal to a key.
\<close>

fun hashable :: "pyval \<Rightarrow> bool" where
  "hashable (PList text items) = False"
| "hashable (PDict text items) = False"
| "hashable _ = True"

definition state_string :: "pyval \<Rightarrow> error + pyval" where
  "state_string state =
     (if hashable state
      then Inr (case states state of None \<Rightarrow> state | Some s \<Rightarrow> PStr s)
      else Inl TypeError)"

section \<open>Comparison and sorting as Python does them\<close>

text \<open>
  \<^verbatim>\<open>a == b\<close> on values: a truth value is the integer 0 or 1, lists are equal when they
  have the same length and equal items, dicts when they have the same keys with equal
  values, and values of different kinds are not equal.
\<close>

fun py_eq :: "pyval \<Rightarrow> pyval \<Rightarrow> bool"
  and py_eq_list :: "pyval list \<Rightarrow> pyval list \<Rightarrow> bool"
  and py_eq_items :: "(string \<times> pyval) list \<Rightarrow> (string \<times> pyval) list \<Rightarrow> bool"
  and py_eq_lookup :: "pyval \<Rightarrow> string \<Rightarrow> (string \<times> pyval) list \<Rightarrow> bool" where
  "py_eq PNone PNone = True"
| "py_eq (PStr a) (PStr b) = (a = b)"
| "py_eq (PList s xs) (PList t ys) = py_eq_list xs ys"
| "py_eq (PDict s a) (PDict t b) = (length a = length b \<and> py_eq_items a b)"
| "py_eq (PBool a) (PBool b) = (a = b)"
| "py_eq (PBool a) (PInt b) = ((if a then 1 else 0) = b)"
| "py_eq (PInt a) (PBool b) = (a = (if b then 1 else 0))"
| "py_eq (PInt a) (PInt b) = (a = b)"
| "py_eq _ _ = False"
| "py_eq_list [] [] = True"
| "py_eq_list (x # xs) (y # ys) = (py_eq x y \<and> py_eq_list xs ys)"
| "py_eq_list _ _ = False"
| "py_eq_items [] b = True"
| "py_eq_items ((k, v) # a) b = (py_eq_lookup v k b \<and> py_eq_items a b)"
| "py_eq_lookup v k [] = False"
| "py_eq_lookup v k ((k', w) # b) = (if k = k' then py_eq v w else py_eq_lookup v k b)"

text \<open>
  \<^verbatim>\<open>a < b\<close> on values: integers and truth values compare as numbers, strings
  lexicographically, lists by their first items that are not equal (or by their lengths
  when there are none), and every other pair of values raises \<^verbatim>\<open>TypeError\<close>, also
  \<^verbatim>\<open>None < None\<close>.
\<close>

fun py_lt :: "pyval \<Rightarrow> pyval \<Rightarrow> error + bool"
  and py_lt_list :: "pyval list \<Rightarrow> pyval list \<Rightarrow> error + bool" where
  "py_lt (PStr a) (PStr b) = Inr (a < b)"
| "py_lt (PList s xs) (PList t ys) = py_lt_list xs ys"
| "py_lt (PBool a) (PBool b) = Inr ((if a then (1::int) else 0) < (if b then 1 else 0))"
| "py_lt (PBool a) (PInt b) = Inr ((if a then 1 else 0) < b)"
| "py_lt (PInt a) (PBool b) = Inr (a < (if b then 1 else 0))"
| "py_lt (PInt a) (PInt b) = Inr (a < b)"
| "py_lt _ _ = Inl TypeError"
| "py_lt_list [] [] = Inr False"
| "py_lt_list [] (y # ys) = Inr True"
| "py_lt_list (x # xs) [] = Inr False"
| "py_lt_list (x # xs) (y # ys) = (if py_eq x y then py_lt_list xs ys else py_lt x y)"

text \<open>
  \<^verbatim>\<open>list.sort(key=key, reverse=True)\<close>: a stable sort into descending order of the keys
  that compares keys with \<^verbatim>\<open><\<close> only and raises what a comparison raises. It is written
  as an insertion sort: an element moves behind the elements whose key is greater than
  its own, and stays in front of those with an equal key, which followed it in the input.
  A list of fewer than two elements is returned with no comparison made.
\<close>

fun insert_desc :: "('a \<Rightarrow> pyval) \<Rightarrow> 'a \<Rightarrow> 'a list \<Rightarrow> error + 'a list" where
  "insert_desc key x [] = Inr [x]"
| "insert_desc key x (y # ys) =
     (case py_lt (key x) (key y) of
        Inl e \<Rightarrow> Inl e
      | Inr True \<Rightarrow> (case insert_desc key x ys of Inl e \<Rightarrow> Inl e | Inr zs \<Rightarrow> Inr (y # zs))
      | Inr False \<Rightarrow> Inr (x # y # ys))"

fun sort_desc :: "('a \<Rightarrow> pyval) \<Rightarrow> 'a list \<Rightarrow> error + 'a list" where
  "sort_desc key [] = Inr []"
| "sort_desc key (x # xs) =
     (case sort_desc key xs of Inl e \<Rightarrow> Inl e | Inr ys \<Rightarrow> insert_desc key x ys)"






section \<open>The program's options and its HTTP peer\<close>

text \<open>
  The parsed command line, \<^verbatim>\<open>args\<close>. The compiled regular expression \<^verbatim>\<open>args.filter\<close> is
  the predicate \<open>filter_match\<close> on strings: whether \<^verbatim>\<open>args.filter.match(s)\<close> finds a match.
\<close>

record args =
  instances :: "string list"
  lookback :: string
  limit :: int
  filter_match :: "string \<Rightarrow> bool"
  disable_urls :: bool
  watch :: bool
  watch_interval :: int

text \<open>
  An element of a decoded JSON array is an object, which becomes a record, or another
  value, which has no method \<^verbatim>\<open>get\<close>.
\<close>

datatype element = Object row | NoObject

text \<open>
  What a GET request gives. A body that \<^verbatim>\<open>json.loads\<close> decodes is an array; or the empty
  string or the empty object, over which a loop runs no pass; or another string or
  object, over whose characters or keys a loop runs; or null, a number or a truth
  value, over which no loop runs at all. \<open>NotJSON\<close> is a body that \<^verbatim>\<open>json.loads\<close>
  rejects with \<^verbatim>\<open>JSONDecodeError\<close>, and \<open>Failed\<close> an exception that the request or the
  decoder raises otherwise.
\<close>

datatype response =
    Decoded "element list"
  | DecodedEmpty
  | DecodedText
  | DecodedAtom
  | NotJSON
  | Failed error

type_synonym http = "string \<Rightarrow> response"

text \<open>
  A function of the program returns what it printed, one entry for each \<^verbatim>\<open>print\<close>,
  together with its result or the exception that ended it.
\<close>

type_synonym 'a printed = "string list \<times> (error + 'a)"

section \<open>get_instance_notifications and data_of_instances\<close>

definition request_url :: "args \<Rightarrow> string \<Rightarrow> string" where
  "request_url a instance =
     instance @ ''/monitoring/list/notifications?notification_timestamp>='' @ lookback a"

text \<open>The body of the loop that adds the links: \<^verbatim>\<open>row.update({"url": url})\<close>.\<close>

definition add_url :: "string \<Rightarrow> row \<Rightarrow> row" where
  "add_url instance row =
     row(''url'' \<mapsto> PStr (generate_url instance (pyget row ''host_name'')
                                 (pyget row ''service_description'')))"

text \<open>The loop \<^verbatim>\<open>for row in output\<close> over a decoded array.\<close>

fun add_urls :: "string \<Rightarrow> element list \<Rightarrow> error + row list" where
  "add_urls instance [] = Inr []"
| "add_urls instance (NoObject # rest) = Inl AttributeError"
| "add_urls instance (Object row # rest) =
     (case add_urls instance rest of
        Inl e \<Rightarrow> Inl e
      | Inr rows \<Rightarrow> Inr (add_url instance row # rows))"

definition get_instance_notifications :: "http \<Rightarrow> args \<Rightarrow> string \<Rightarrow> row list printed" where
  "get_instance_notifications http a instance =
     (case http (request_url a instance) of
        Failed e \<Rightarrow> ([], Inl e)
      | NotJSON \<Rightarrow>
          ([''error decoding json from '' @ instance @ ''. Login error?''], Inl (SystemExit 1))
      | Decoded output \<Rightarrow> ([], add_urls instance output)
      | DecodedEmpty \<Rightarrow> ([], Inr [])
      | DecodedText \<Rightarrow> ([], Inl AttributeError)
      | DecodedAtom \<Rightarrow> ([], Inl TypeError))"

definition sort_by_ts :: "row \<Rightarrow> pyval" where
  "sort_by_ts elem = pyget elem ''notification_timestamp''"

text \<open>The loop of \<open>data_of_instances\<close> over the instances, with the list \<^verbatim>\<open>returns\<close>.\<close>

fun extend_loop :: "http \<Rightarrow> args \<Rightarrow> row list \<Rightarrow> string list \<Rightarrow> row list printed" where
  "extend_loop http a returns [] = ([], Inr returns)"
| "extend_loop http a returns (instance # rest) =
     (case get_instance_notifications http a instance of
        (ls, Inl e) \<Rightarrow> (ls, Inl e)
      | (ls, Inr icinga_output) \<Rightarrow>
          (case extend_loop http a (returns @ icinga_output) rest of
             (ls', res) \<Rightarrow> (ls @ ls', res)))"

definition data_of_instances :: "http \<Rightarrow> args \<Rightarrow> string list \<Rightarrow> row list printed" where
  "data_of_instances http a insts =
     (case extend_loop http a [] insts of
        (ls, Inl e) \<Rightarrow> (ls, Inl e)
      | (ls, Inr returns) \<Rightarrow> (ls, sort_desc sort_by_ts returns))"

section \<open>The platform: local time and the digits of other scripts\<close>

text \<open>
  Two answers come from the platform and are parameters. \<^verbatim>\<open>datetime.fromtimestamp(ts)\<close>
  converts the seconds since the epoch to the calendar time of the time zone of the
  process, and raises for a time that the C library or \<^verbatim>\<open>datetime\<close> cannot hold. \<^verbatim>\<open>int(s)\<close>
  of a string with a character outside ASCII reads the decimal digits and the white
  space of every script as the Unicode tables of the interpreter define them.
\<close>

record tm =
  tm_year :: nat
  tm_mon :: nat
  tm_mday :: nat
  tm_hour :: nat
  tm_min :: nat
  tm_sec :: nat

record platform =
  localtime :: "int \<Rightarrow> error + tm"
  int_unicode :: "string \<Rightarrow> int option"

section \<open>int and show_time\<close>

text \<open>
  \<^verbatim>\<open>int(s)\<close> of an ASCII string: white space around the literal (the characters 9 to 13
  and the blank), one sign, decimal digits that single underscores may separate, and
  no more digits than \<^verbatim>\<open>sys.int_max_str_digits\<close>, which is 4300 unless it is configured.
\<close>

definition is_space :: "char \<Rightarrow> bool" where
  "is_space c = (let n = (of_char c :: nat) in (9 \<le> n \<and> n \<le> 13) \<or> n = 32)"

definition is_digit :: "char \<Rightarrow> bool" where
  "is_digit c = (let n = (of_char c :: nat) in 48 \<le> n \<and> n \<le> 57)"

definition digit_val :: "char \<Rightarrow> nat" where
  "digit_val c = of_char c - 48"

definition strip :: "string \<Rightarrow> string" where
  "strip s = rev (dropWhile is_space (rev (dropWhile is_space s)))"

fun parse_digits :: "nat \<Rightarrow> string \<Rightarrow> nat option" where
  "parse_digits acc [] = Some acc"
| "parse_digits acc [c] = (if is_digit c then Some (10 * acc + digit_val c) else None)"
| "parse_digits acc (c # d # cs) =
     (if is_digit c then parse_digits (10 * acc + digit_val c) (d # cs)
      else if c = CHR ''_'' \<and> is_digit d then parse_digits (10 * acc + digit_val d) cs
      else None)"

definition int_max_str_digits :: nat where
  "int_max_str_digits = 4300"

definition parse_unsigned :: "string \<Rightarrow> nat option" where
  "parse_unsigned s =
     (case s of
        [] \<Rightarrow> None
      | c # cs \<Rightarrow>
          if is_digit c \<and> length (filter is_digit s) \<le> int_max_str_digits
          then parse_digits (digit_val c) cs
          else None)"

definition int_of_ascii :: "string \<Rightarrow> int option" where
  "int_of_ascii s =
     (case strip s of
        [] \<Rightarrow> None
      | c # cs \<Rightarrow>
          if c = CHR ''-'' then map_option (\<lambda>n. - int n) (parse_unsigned cs)
          else if c = CHR ''+'' then map_option int (parse_unsigned cs)
          else map_option int (parse_unsigned (c # cs)))"

definition is_ascii :: "string \<Rightarrow> bool" where
  "is_ascii s = list_all (\<lambda>c. (of_char c :: nat) < 128) s"

text \<open>
  \<^verbatim>\<open>int(v)\<close>: a number is its value, a string is read or raises \<^verbatim>\<open>ValueError\<close>, and
  \<^verbatim>\<open>None\<close>, a list and a dict raise \<^verbatim>\<open>TypeError\<close>.
\<close>

fun py_int :: "platform \<Rightarrow> pyval \<Rightarrow> error + int" where
  "py_int pf (PBool b) = Inr (if b then 1 else 0)"
| "py_int pf (PInt i) = Inr i"
| "py_int pf (PStr s) =
     (case (if is_ascii s then int_of_ascii s else int_unicode pf s) of
        None \<Rightarrow> Inl ValueError
      | Some i \<Rightarrow> Inr i)"
| "py_int pf _ = Inl TypeError"

text \<open>
  \<^verbatim>\<open>strftime('%Y-%m-%d %H:%M:%S')\<close> as the C library prints it: two digits for each field
  but the year, which has as many digits as it needs.
\<close>

definition strftime :: "tm \<Rightarrow> string" where
  "strftime t =
     nat_digits (tm_year t) @ ''-'' @ fmt_02d (tm_mon t) @ ''-'' @ fmt_02d (tm_mday t) @ '' '' @
     fmt_02d (tm_hour t) @ '':'' @ fmt_02d (tm_min t) @ '':'' @ fmt_02d (tm_sec t)"

definition show_time :: "platform \<Rightarrow> int \<Rightarrow> error + string" where
  "show_time pf ts = (case localtime pf ts of Inl e \<Rightarrow> Inl e | Inr t \<Rightarrow> Inr (strftime t))"

section \<open>text_output\<close>

text \<open>\<^verbatim>\<open>sep.join(items)\<close>: every item has to be a string.\<close>

fun py_join :: "string \<Rightarrow> pyval list \<Rightarrow> error + string" where
  "py_join sep [] = Inr []"
| "py_join sep [PStr s] = Inr s"
| "py_join sep (PStr s # v # vs) =
     (case py_join sep (v # vs) of Inl e \<Rightarrow> Inl e | Inr t \<Rightarrow> Inr (s @ sep @ t))"
| "py_join sep (_ # vs) = Inl TypeError"

definition separator :: string where
  "separator = '' | ''"

text \<open>The first statement of the loop body: \<^verbatim>\<open>show_time(int(r.get("notification_timestamp")))\<close>.\<close>

definition row_time :: "platform \<Rightarrow> row \<Rightarrow> error + string" where
  "row_time pf r =
     (case py_int pf (pyget r ''notification_timestamp'') of
        Inl e \<Rightarrow> Inl e
      | Inr ts \<Rightarrow> show_time pf ts)"

text \<open>
  The innermost block of the loop body, with the time stamp and the state that the
  head of the loop body has computed: the joined line, and the line of the URL unless
  \<^verbatim>\<open>args.disable_urls\<close> is set.
\<close>

definition render_lines :: "args \<Rightarrow> nat \<Rightarrow> string \<Rightarrow> pyval \<Rightarrow> row \<Rightarrow> error + string list" where
  "render_lines a counter timestamp state r =
     (let hostname = pyget r ''host_name'';
          service = pyget r ''service_display_name'';
          url = pyget r ''url''
      in case py_join separator
                [PStr (fmt_02d (counter + 1)), PStr timestamp, state, hostname, service] of
           Inl e \<Rightarrow> Inl e
         | Inr output \<Rightarrow>
             Inr (output #
                  (if \<not> disable_urls a
                   then [''   `-'' @ Fore_GREEN @ Style_BRIGHT @ fstr url @ Style_RESET_ALL]
                   else [])))"

text \<open>
  One pass of the loop body at a record: it raises, prints nothing and goes on, prints
  the lines of the record and counts it, or leaves the loop. The five assignments at
  the head of the body come first; of them the time stamp and the state can raise.
\<close>

datatype step = Raise error | Skip | Print "string list" | Stop

definition text_output_step :: "platform \<Rightarrow> args \<Rightarrow> int \<Rightarrow> nat \<Rightarrow> row \<Rightarrow> step" where
  "text_output_step pf a lim counter r =
     (case row_time pf r of
        Inl e \<Rightarrow> Raise e
      | Inr timestamp \<Rightarrow>
          (case state_string (pyget r ''notification_state'') of
             Inl e \<Rightarrow> Raise e
           | Inr state \<Rightarrow>
               (case pyget r ''notification_contact_name'' of
                  PNone \<Rightarrow> Skip
                | PStr name \<Rightarrow>
                    if filter_match a name
                    then if int counter < lim
                         then (case render_lines a counter timestamp state r of
                                 Inl e \<Rightarrow> Raise e
                               | Inr ls \<Rightarrow> Print ls)
                         else Stop
                    else Skip
                | _ \<Rightarrow> Raise TypeError)))"

text \<open>
  How the loop ended: at the end of the list, at the \<^verbatim>\<open>break\<close>, or with an exception.
  The loop returns the counter and the lines printed as well.
\<close>

datatype ending = Exhausted | Broken | Raised error

fun text_output_loop ::
  "platform \<Rightarrow> args \<Rightarrow> int \<Rightarrow> nat \<Rightarrow> row list \<Rightarrow> nat \<times> string list \<times> ending" where
  "text_output_loop pf a lim counter [] = (counter, [], Exhausted)"
| "text_output_loop pf a lim counter (r # rs) =
     (case text_output_step pf a lim counter r of
        Raise e \<Rightarrow> (counter, [], Raised e)
      | Stop \<Rightarrow> (counter, [], Broken)
      | Skip \<Rightarrow> text_output_loop pf a lim counter rs
      | Print ls \<Rightarrow>
          (case text_output_loop pf a lim (counter + 1) rs of
             (c, out, en) \<Rightarrow> (c, ls @ out, en)))"

definition text_output :: "platform \<Rightarrow> args \<Rightarrow> row list \<Rightarrow> int \<Rightarrow> unit printed" where
  "text_output pf a notifications lim =
     (case text_output_loop pf a lim 0 notifications of
        (c, out, Raised e) \<Rightarrow> (out, Inl e)
      | (c, out, _) \<Rightarrow> (out, Inr ()))"

text \<open>A record passes the filter: its contact name is a string that the filter matches.\<close>

definition matches :: "args \<Rightarrow> row \<Rightarrow> bool" where
  "matches a r =
     (case pyget r ''notification_contact_name'' of PStr name \<Rightarrow> filter_match a name | _ \<Rightarrow> False)"


section \<open>show_data and the main program\<close>

definition show_data :: "platform \<Rightarrow> http \<Rightarrow> args \<Rightarrow> unit printed" where
  "show_data pf http a =
     (case data_of_instances http a (instances a) of
        (ls, Inl e) \<Rightarrow> (ls, Inl e)
      | (ls, Inr notifs) \<Rightarrow>
          (case text_output pf a notifs (limit a) of (ls', res) \<Rightarrow> (ls @ ls', res)))"

text \<open>
  \<open>wait_for_key\<close> prints its prompt and polls the clock and the keyboard until the
  time is over or a key is pressed. What the wait comes to is given from outside: it
  returns, or the user interrupts it.
\<close>

datatype wait_result = Returned | Interrupted

definition wait_for_key :: "wait_result \<Rightarrow> string \<Rightarrow> int \<Rightarrow> unit printed" where
  "wait_for_key w prompt timeout =
     ([prompt], case w of Returned \<Rightarrow> Inr () | Interrupted \<Rightarrow> Inl KeyboardInterrupt)"

text \<open>
  What the process meets in one round of the watch loop: the answers of the instances
  and the end of the wait. An interrupt during a request is the answer
  \<open>Failed KeyboardInterrupt\<close>.
\<close>

record round =
  round_http :: http
  round_wait :: wait_result

text \<open>The body of the \<^verbatim>\<open>try\<close> statement in the watch loop.\<close>

definition watch_body :: "platform \<Rightarrow> args \<Rightarrow> round \<Rightarrow> unit printed" where
  "watch_body pf a w =
     (case show_data pf (round_http w) a of
        (ls, Inl e) \<Rightarrow> (clear_screen # ls, Inl e)
      | (ls, Inr u) \<Rightarrow>
          (case wait_for_key (round_wait w)
                  (''Waiting for '' @ int_str (watch_interval a)
                     @ ''s, press enter to refresh now'')
                  (watch_interval a) of
             (ls', res) \<Rightarrow> (clear_screen # ls @ ls', res)))"

text \<open>
  The exit status of the process when an exception leaves the program: of \<^verbatim>\<open>exit(n)\<close>
  the low eight bits of \<open>n\<close>, the status 130 of a process that the interrupt signal
  ended, and 1 for every other exception.
\<close>

fun exit_status :: "error \<Rightarrow> int" where
  "exit_status (SystemExit n) = (if - (2 ^ 63) \<le> n \<and> n < 2 ^ 63 then n mod 256 else 255)"
| "exit_status KeyboardInterrupt = 130"
| "exit_status _ = 1"

text \<open>
  The watch loop runs for ever; it is run here on the rounds that are given, and the
  status \<open>None\<close> says that the process is still running after them.
\<close>

fun watch_loop :: "platform \<Rightarrow> args \<Rightarrow> round list \<Rightarrow> string list \<times> int option" where
  "watch_loop pf a [] = ([], None)"
| "watch_loop pf a (w # ws) =
     (case watch_body pf a w of
        (ls, Inl e) \<Rightarrow> (ls, Some (if e = KeyboardInterrupt then 0 else exit_status e))
      | (ls, Inr u) \<Rightarrow> (case watch_loop pf a ws of (ls', st) \<Rightarrow> (ls @ ls', st)))"

text \<open>The program from the line \<^verbatim>\<open>if args.watch:\<close> on, with the options parsed.\<close>

definition main :: "platform \<Rightarrow> args \<Rightarrow> round list \<Rightarrow> string list \<times> int option" where
  "main pf a rounds =
     (if watch a then watch_loop pf a rounds
      else (case rounds of
              [] \<Rightarrow> ([], None)
            | w # _ \<Rightarrow>
                (case show_data pf (round_http w) a of
                   (ls, Inl e) \<Rightarrow> (ls, Some (exit_status e))
                 | (ls, Inr u) \<Rightarrow> (ls, Some 0))))"

section \<open>Example data\<close>

text \<open>
  A platform to run examples on: a 64-bit Linux in the time zone UTC. The time stamp
  has to fit the 64 bits of \<^verbatim>\<open>time_t\<close>, the year has to fit the 32 bits of the C library,
  and \<^verbatim>\<open>datetime\<close> holds the years 1 to 9999 and looks one day back for a change of the
  clock. The date comes from the count of days since 1970-01-01. The examples have no
  string outside ASCII, and the example platform reads none.
\<close>

definition civil_year :: "int \<Rightarrow> int" where
  "civil_year ts =
     (let z = ts div 86400 + 719468;
          doe = z mod 146097;
          yoe = (doe - doe div 1460 + doe div 36524 - doe div 146096) div 365;
          doy = doe - (365 * yoe + yoe div 4 - yoe div 100);
          mp = (5 * doy + 2) div 153
      in yoe + (z div 146097) * 400 + (if mp < 10 then 0 else 1))"

definition civil_tm :: "int \<Rightarrow> tm" where
  "civil_tm ts =
     (let secs = ts mod 86400;
          z = ts div 86400 + 719468;
          doe = z mod 146097;
          yoe = (doe - doe div 1460 + doe div 36524 - doe div 146096) div 365;
          doy = doe - (365 * yoe + yoe div 4 - yoe div 100);
          mp = (5 * doy + 2) div 153
      in \<lparr>tm_year = nat (civil_year ts),
          tm_mon = nat (if mp < 10 then mp + 3 else mp - 9),
          tm_mday = nat (doy - (153 * mp + 2) div 5 + 1),
          tm_hour = nat (secs div 3600), tm_min = nat (secs mod 3600 div 60),
          tm_sec = nat (secs mod 60)\<rparr>)"

definition utc_localtime :: "int \<Rightarrow> error + tm" where
  "utc_localtime ts =
     (if ts < - (2 ^ 63) \<or> 2 ^ 63 \<le> ts then Inl OverflowError
      else if ts < - 67768040609740800 \<or> 67768036191676799 < ts then Inl OSError
      else if civil_year ts < 1 \<or> 9999 < civil_year ts then Inl ValueError
      else if civil_year (ts - 86400) < 1 then Inl ValueError
      else Inr (civil_tm ts))"

definition utc_platform :: platform where
  "utc_platform = \<lparr>localtime = utc_localtime, int_unicode = (\<lambda>s. None)\<rparr>"

text \<open>The defaults of the argument parser, with two instances.\<close>

definition default_args :: args where
  "default_args =
     \<lparr>instances = [''https://a.example'', ''https://b.example''], lookback = ''-1 days'',
      limit = 10, filter_match = (\<lambda>s. True), disable_urls = False, watch = False,
      watch_interval = 120\<rparr>"

definition alice_row :: row where
  "alice_row =
     [''host_name'' \<mapsto> PStr ''web1'', ''service_description'' \<mapsto> PStr ''http'',
      ''service_display_name'' \<mapsto> PStr ''HTTP'', ''notification_timestamp'' \<mapsto> PInt 100,
      ''notification_state'' \<mapsto> PStr ''2'', ''notification_contact_name'' \<mapsto> PStr ''alice'']"

definition bob_row :: row where
  "bob_row =
     [''host_name'' \<mapsto> PStr ''db1'', ''service_description'' \<mapsto> PStr ''disk'',
      ''service_display_name'' \<mapsto> PStr ''Disk'', ''notification_timestamp'' \<mapsto> PInt 200,
      ''notification_state'' \<mapsto> PStr ''1'', ''notification_contact_name'' \<mapsto> PStr ''bob'']"

text \<open>A notification of a host: it has no service.\<close>

definition host_row :: row where
  "host_row =
     [''host_name'' \<mapsto> PStr ''web1'', ''notification_timestamp'' \<mapsto> PInt 300,
      ''notification_state'' \<mapsto> PStr ''1'', ''notification_contact_name'' \<mapsto> PStr ''alice'']"

text \<open>
  Records with no contact name: one with a time stamp that is a number, one with a
  time stamp that is the text of a number, and one with a time stamp that is neither.
\<close>

definition quiet_row :: row where
  "quiet_row =
     [''host_name'' \<mapsto> PStr ''web2'', ''service_display_name'' \<mapsto> PStr ''HTTP'',
      ''notification_timestamp'' \<mapsto> PInt 50, ''notification_state'' \<mapsto> PStr ''0'']"


definition broken_row :: row where
  "broken_row =
     [''host_name'' \<mapsto> PStr ''web2'', ''service_display_name'' \<mapsto> PStr ''HTTP'',
      ''notification_timestamp'' \<mapsto> PStr ''n/a'', ''notification_state'' \<mapsto> PStr ''0'']"

definition example_http :: http where
  "example_http url =
     (if url = ''https://a.example/monitoring/list/notifications?notification_timestamp>=-1 days''
      then Decoded [Object alice_row]
      else if url = ''https://b.example/monitoring/list/notifications?notification_timestamp>=-1 days''
      then Decoded [Object bob_row]
      else NotJSON)"




section \<open>Properties of generate_url and state_string\<close>

text \<open>
  Claim C5. For every instance base URL \<open>i\<close>, host name \<open>h\<close> and service name \<open>s\<close>,
  \<open>generate_url\<close> without a service gives
  \<open>i + "/dashboard#!/monitoring/host/show?host=" + h\<close>, and with the service \<open>s\<close> gives
  \<open>i + "/dashboard#!/monitoring/service/show?host=" + h + "&service=" + s\<close>.
\<close>

theorem generate_url_forms:
  "generate_url i (PStr h) PNone = i @ ''/dashboard#!/monitoring/host/show?host='' @ h \<and>
   generate_url i (PStr h) (PStr s) =
     i @ ''/dashboard#!/monitoring/service/show?host='' @ h @ ''&service='' @ s"
  by (simp add: generate_url_def)

text \<open>
  Claim C6, as the code has it. \<open>state_string\<close> maps the state code \<open>"0"\<close> to a green
  \<open>OK\<close>, \<open>"1"\<close> to a yellow \<open>WARN\<close>, \<open>"2"\<close> to a red \<open>CRIT\<close> and \<open>"3"\<close> to a cyan
  \<open>UNKN\<close>; every other value that has a hash (\<^verbatim>\<open>None\<close>, a truth value, an integer, a
  string) is returned as it is, with no colour code added; a list or a dict raises
  \<^verbatim>\<open>TypeError\<close>.
\<close>

theorem state_string_table:
  "state_string v =
     (if v = PStr ''0'' then Inr (PStr (Fore_GREEN @ ''OK'' @ Fore_RESET))
      else if v = PStr ''1'' then Inr (PStr (Fore_YELLOW @ ''WARN'' @ Fore_RESET))
      else if v = PStr ''2'' then Inr (PStr (Fore_RED @ ''CRIT'' @ Fore_RESET))
      else if v = PStr ''3'' then Inr (PStr (Fore_CYAN @ ''UNKN'' @ Fore_RESET))
      else if hashable v then Inr v
      else Inl TypeError)"
  by (cases v) (auto simp: state_string_def states_def)

text \<open>
  The claim C6 as it is stated fails at a state that is a JSON array: the value is not
  returned, the lookup raises.
\<close>

theorem state_string_list_counterexample:
  "state_string (PList ''[]'' []) = Inl TypeError"
  by (simp add: state_string_def)

section \<open>Properties of the sort\<close>


















section \<open>Properties of data_of_instances\<close>




lemma requests [simp]:
  "request_url default_args ''https://a.example'' =
     ''https://a.example/monitoring/list/notifications?notification_timestamp>=-1 days''"
  "request_url default_args ''https://b.example'' =
     ''https://b.example/monitoring/list/notifications?notification_timestamp>=-1 days''"
  by (simp_all add: request_url_def default_args_def)



section \<open>Properties of text_output\<close>

text \<open>
  The loop over a list that has two parts runs over the second part only when it has
  come to the end of the first.
\<close>

lemma loop_append:
  "text_output_loop pf a L c (xs @ ys) =
     (case text_output_loop pf a L c xs of
        (c', out, Exhausted) \<Rightarrow>
          (case text_output_loop pf a L c' ys of (c'', out', en) \<Rightarrow> (c'', out @ out', en))
      | res \<Rightarrow> res)"
  by (induction xs arbitrary: c) (auto split: step.splits prod.splits ending.splits)

text \<open>
  What a pass of the loop body says about the record: a record with no contact name is
  skipped or raises, whatever the counter; a skipped record does not pass the filter; at
  the \<^verbatim>\<open>break\<close> the record passes the filter and the counter has reached the limit; a
  printed record passes the filter below the limit.
\<close>

lemma step_absent_contact:
  "pyget r ''notification_contact_name'' = PNone \<Longrightarrow>
   text_output_step pf a L c r = Skip \<or> (\<exists>e. text_output_step pf a L c r = Raise e)"
  by (auto simp: text_output_step_def split: sum.splits)

lemma step_absent_contact_counter:
  "pyget r ''notification_contact_name'' = PNone \<Longrightarrow>
   text_output_step pf a L c r = text_output_step pf a L' c' r"
  by (auto simp: text_output_step_def split: sum.splits)

lemma step_Skip: "text_output_step pf a L c r = Skip \<Longrightarrow> \<not> matches a r"
  by (auto simp: text_output_step_def matches_def split: sum.splits pyval.splits if_splits)


lemma step_Print:
  "text_output_step pf a L c r = Print ls \<Longrightarrow>
   matches a r \<and> int c < L \<and>
   (\<exists>t st. row_time pf r = Inr t \<and> state_string (pyget r ''notification_state'') = Inr st \<and>
           render_lines a c t st r = Inr ls)"
  by (auto simp: text_output_step_def matches_def split: sum.splits pyval.splits if_splits)

lemma step_matches_full:
  "matches a r \<Longrightarrow> \<not> int c < L \<Longrightarrow>
   text_output_step pf a L c r = Stop \<or> (\<exists>e. text_output_step pf a L c r = Raise e)"
  by (auto simp: text_output_step_def matches_def split: sum.splits pyval.splits if_splits)

lemma loop_exhausted_count:
  "text_output_loop pf a L c rs = (c', out, Exhausted) \<Longrightarrow>
   c' = c + length (filter (matches a) rs)"
proof (induction rs arbitrary: c c' out)
  case Nil
  then show ?case by simp
next
  case (Cons r rs)
  show ?case
  proof (cases "text_output_step pf a L c r")
    case (Raise e)
    with Cons.prems show ?thesis by simp
  next
    case Skip
    with Cons.prems Cons.IH step_Skip[OF Skip] show ?thesis by simp
  next
    case (Print ls)
    with Cons.prems obtain out' where "text_output_loop pf a L (c + 1) rs = (c', out', Exhausted)"
      by (auto split: prod.splits)
    from Cons.IH[OF this] step_Print[OF Print] show ?thesis by simp
  next
    case Stop
    with Cons.prems show ?thesis by simp
  qed
qed





text \<open>
  Claim C3. A record whose \<open>notification_contact_name\<close> is absent is never printed and
  never counted, for every list, limit and filter: its pass of the loop body prints
  nothing whatever the counter is; when the pass does not raise, the whole loop gives the
  lines, the counter and the ending that it gives on the list without the record; and
  when the pass raises, the loop gives the lines and the counter that it gives on the
  records before it.
\<close>

theorem absent_contact_never_printed:
  assumes "pyget r ''notification_contact_name'' = PNone"
  shows "case text_output_step pf a L c r of
           Skip \<Rightarrow>
             text_output_loop pf a L start (pre @ r # post) = text_output_loop pf a L start (pre @ post)
         | Raise e \<Rightarrow>
             (case text_output_loop pf a L start pre of
                (c', out, Exhausted) \<Rightarrow>
                  text_output_loop pf a L start (pre @ r # post) = (c', out, Raised e)
              | res \<Rightarrow> text_output_loop pf a L start (pre @ r # post) = res)
         | Print ls \<Rightarrow> False
         | Stop \<Rightarrow> False"
proof -
  obtain c' out en where l: "text_output_loop pf a L start pre = (c', out, en)"
    by (metis prod_cases3)
  note s = step_absent_contact_counter[OF assms, of pf a L c' L c]
  from step_absent_contact[OF assms, of pf a L c]
  show ?thesis
  proof
    assume k: "text_output_step pf a L c r = Skip"
    then show ?thesis using l s
      by (cases en) (simp_all add: loop_append)
  next
    assume "\<exists>e. text_output_step pf a L c r = Raise e"
    then obtain e where k: "text_output_step pf a L c r = Raise e" by blast
    then show ?thesis using l s
      by (cases en) (simp_all add: loop_append)
  qed
qed

theorem absent_contact_never_printed_witness:
  "pyget quiet_row ''notification_contact_name'' = PNone \<and>
   text_output_step utc_platform default_args 10 0 quiet_row = Skip \<and>
   text_output_loop utc_platform default_args 10 0 ([alice_row] @ quiet_row # [bob_row]) =
   text_output_loop utc_platform default_args 10 0 ([alice_row] @ [bob_row])"
proof -
  have h: "pyget quiet_row ''notification_contact_name'' = PNone" by code_simp
  have s: "text_output_step utc_platform default_args 10 0 quiet_row = Skip" by code_simp
  show ?thesis
    using h s absent_contact_never_printed[OF h, where pf = utc_platform and a = default_args and L = 10
        and c = 0 and start = 0 and pre = "[alice_row]" and post = "[bob_row]"]
    by simp
qed

text \<open>
  Claim C4, as the code has it. Once \<open>limit\<close> records have been printed, \<open>text_output\<close>
  goes on to examine the records that follow until it meets the next record whose contact
  name is a string that matches the filter, and stops there: when the records before a
  matching record \<open>m\<close> hold at least \<open>L\<close> matching records, the lines printed and the
  exception raised, if any, do not depend on the records that follow \<open>m\<close>.
\<close>

theorem text_output_stops_at_next_match:
  assumes "L \<le> int (length (filter (matches a) pre))" "matches a m"
  shows "text_output_loop pf a L 0 (pre @ m # post) = text_output_loop pf a L 0 (pre @ m # post') \<and>
         text_output pf a (pre @ m # post) L = text_output pf a (pre @ m # post') L"
proof -
  obtain c' out en where l: "text_output_loop pf a L 0 pre = (c', out, en)"
    by (metis prod_cases3)
  have "text_output_loop pf a L 0 (pre @ m # post) = text_output_loop pf a L 0 (pre @ m # post')"
  proof (cases en)
    case Exhausted
    with l loop_exhausted_count[of pf a L 0 pre c' out] have "c' = length (filter (matches a) pre)"
      by simp
    with assms(1) have "\<not> int c' < L" by simp
    from step_matches_full[OF assms(2) this, of pf]
    show ?thesis using l Exhausted by (auto simp: loop_append)
  next
    case Broken
    with l show ?thesis by (simp add: loop_append)
  next
    case (Raised e)
    with l show ?thesis by (simp add: loop_append)
  qed
  then show ?thesis by (simp add: text_output_def)
qed

theorem text_output_stops_at_next_match_witness:
  "(1::int) \<le> int (length (filter (matches default_args) [alice_row, quiet_row])) \<and>
   matches default_args bob_row \<and>
   text_output utc_platform default_args ([alice_row, quiet_row] @ bob_row # [broken_row]) 1 =
   text_output utc_platform default_args ([alice_row, quiet_row] @ bob_row # []) 1"
proof -
  have h1: "(1::int) \<le> int (length (filter (matches default_args) [alice_row, quiet_row]))"
    by code_simp
  have h2: "matches default_args bob_row" by code_simp
  show ?thesis
    using h1 h2 text_output_stops_at_next_match[OF h1 h2, of utc_platform "[broken_row]" "[]"]
    by simp
qed

text \<open>
  The claim C4 as it is stated fails with the limit 1: after the one printed record, a
  record with no contact name is still examined, and the pass raises \<^verbatim>\<open>ValueError\<close> or ends
  in peace according to the time stamp of that record.
\<close>

theorem text_output_examines_after_limit_counterexample:
  "text_output utc_platform default_args [alice_row, broken_row] 1 =
     ([''01 | 1970-01-01 00:01:40 | '' @ Fore_RED @ ''CRIT'' @ Fore_RESET @ '' | web1 | HTTP'',
       ''   `-'' @ Fore_GREEN @ Style_BRIGHT @ ''None'' @ Style_RESET_ALL], Inl ValueError) \<and>
   text_output utc_platform default_args [alice_row, quiet_row] 1 =
     ([''01 | 1970-01-01 00:01:40 | '' @ Fore_RED @ ''CRIT'' @ Fore_RESET @ '' | web1 | HTTP'',
       ''   `-'' @ Fore_GREEN @ Style_BRIGHT @ ''None'' @ Style_RESET_ALL], Inr ())"
  by code_simp

text \<open>
  Claim C10. The loop body converts the time stamp of every record that it comes to,
  before it looks at the contact name: when the loop has come to the end of the records
  before \<open>r\<close> and \<^verbatim>\<open>int\<close> raises on the \<open>notification_timestamp\<close> of \<open>r\<close> (absent, or not
  the text of a number), the pass at \<open>r\<close> raises that exception and \<open>text_output\<close> ends with
  it, having printed the lines of the records before \<open>r\<close> only, whatever the contact name
  of \<open>r\<close> is.
\<close>

theorem unconvertible_timestamp_fails:
  assumes "text_output_loop pf a L 0 pre = (c, out, Exhausted)"
    and "py_int pf (pyget r ''notification_timestamp'') = Inl e"
  shows "text_output_step pf a L c r = Raise e \<and>
         text_output_loop pf a L 0 (pre @ r # post) = (c, out, Raised e) \<and>
         text_output pf a (pre @ r # post) L = (out, Inl e)"
proof -
  have s: "text_output_step pf a L c r = Raise e"
    using assms(2) by (simp add: text_output_step_def row_time_def)
  then have "text_output_loop pf a L 0 (pre @ r # post) = (c, out, Raised e)"
    using assms(1) by (simp add: loop_append)
  then show ?thesis using s by (simp add: text_output_def)
qed

theorem unconvertible_timestamp_fails_witness:
  "text_output_loop utc_platform default_args 10 0 [alice_row] =
     (1, [''01 | 1970-01-01 00:01:40 | '' @ Fore_RED @ ''CRIT'' @ Fore_RESET @ '' | web1 | HTTP'',
          ''   `-'' @ Fore_GREEN @ Style_BRIGHT @ ''None'' @ Style_RESET_ALL], Exhausted) \<and>
   py_int utc_platform (pyget broken_row ''notification_timestamp'') = Inl ValueError \<and>
   pyget broken_row ''notification_contact_name'' = PNone \<and>
   text_output utc_platform default_args ([alice_row] @ broken_row # [bob_row]) 10 =
     ([''01 | 1970-01-01 00:01:40 | '' @ Fore_RED @ ''CRIT'' @ Fore_RESET @ '' | web1 | HTTP'',
       ''   `-'' @ Fore_GREEN @ Style_BRIGHT @ ''None'' @ Style_RESET_ALL], Inl ValueError)"
proof -
  have h1: "text_output_loop utc_platform default_args 10 0 [alice_row] =
     (1, [''01 | 1970-01-01 00:01:40 | '' @ Fore_RED @ ''CRIT'' @ Fore_RESET @ '' | web1 | HTTP'',
          ''   `-'' @ Fore_GREEN @ Style_BRIGHT @ ''None'' @ Style_RESET_ALL], Exhausted)"
    by code_simp
  have h2: "py_int utc_platform (pyget broken_row ''notification_timestamp'') = Inl ValueError"
    by code_simp
  have h3: "pyget broken_row ''notification_contact_name'' = PNone" by code_simp
  show ?thesis
    using h1 h2 h3 unconvertible_timestamp_fails[OF h1 h2, of "[bob_row]"] by simp
qed

section \<open>The lines of a printed record\<close>










text \<open>
  A notification of a host, which has no service display name, is not printed at all:
  \<^verbatim>\<open>join\<close> raises \<^verbatim>\<open>TypeError\<close> on the missing field.
\<close>

theorem host_notification_raises:
  "text_output utc_platform default_args [host_row] 10 = ([], Inl TypeError)"
  by code_simp

section \<open>Properties of the main program\<close>

lemma fetch_ok_prints_nothing:
  "snd (get_instance_notifications http a j) = Inr rows \<Longrightarrow>
   get_instance_notifications http a j = ([], Inr rows)"
  by (auto simp: get_instance_notifications_def split: response.splits)

lemma extend_loop_not_json:
  assumes "\<forall>j\<in>set pre. \<exists>rows. snd (get_instance_notifications http a j) = Inr rows"
    and "http (request_url a i) = NotJSON"
  shows "extend_loop http a returns (pre @ i # post) =
           ([''error decoding json from '' @ i @ ''. Login error?''], Inl (SystemExit 1))"
  using assms(1)
proof (induction pre arbitrary: returns)
  case Nil
  then show ?case using assms(2) by (simp add: get_instance_notifications_def)
next
  case (Cons j pre)
  then obtain rows where "snd (get_instance_notifications http a j) = Inr rows" by auto
  from fetch_ok_prints_nothing[OF this] Cons show ?case by simp
qed

text \<open>
  Claim C7. When the body that an instance sends is not JSON, and the instances before
  it have answered with records, \<open>show_data\<close> prints the one line that names the instance
  and ends with \<^verbatim>\<open>exit(1)\<close>; the process, in watch mode after clearing the screen, prints
  nothing else in that round and ends with the status 1. No line of a notification is
  printed, since all instances are fetched before the first record is printed.
\<close>

theorem json_failure_exits:
  assumes "instances a = pre @ i # post"
    and "\<forall>j\<in>set pre. \<exists>rows. snd (get_instance_notifications (round_http w) a j) = Inr rows"
    and "round_http w (request_url a i) = NotJSON"
  shows "show_data pf (round_http w) a =
           ([''error decoding json from '' @ i @ ''. Login error?''], Inl (SystemExit 1)) \<and>
         main pf a (w # later) =
           ((if watch a then [clear_screen] else [])
              @ [''error decoding json from '' @ i @ ''. Login error?''], Some 1)"
proof -
  have s: "show_data pf (round_http w) a =
           ([''error decoding json from '' @ i @ ''. Login error?''], Inl (SystemExit 1))"
    using extend_loop_not_json[OF assms(2,3), of "[]" post] assms(1)
    by (simp add: show_data_def data_of_instances_def)
  then show ?thesis by (simp add: main_def watch_body_def)
qed

theorem json_failure_exits_witness:
  "instances (default_args\<lparr>instances := [''https://a.example'', ''https://c.example'']\<rparr>) =
     [''https://a.example''] @ ''https://c.example'' # [] \<and>
   snd (get_instance_notifications example_http
          (default_args\<lparr>instances := [''https://a.example'', ''https://c.example'']\<rparr>)
          ''https://a.example'') = Inr [add_url ''https://a.example'' alice_row] \<and>
   example_http (request_url
          (default_args\<lparr>instances := [''https://a.example'', ''https://c.example'']\<rparr>)
          ''https://c.example'') = NotJSON \<and>
   main utc_platform (default_args\<lparr>instances := [''https://a.example'', ''https://c.example'']\<rparr>)
        [\<lparr>round_http = example_http, round_wait = Returned\<rparr>] =
     ([''error decoding json from https://c.example. Login error?''], Some 1)"
proof -
  define a where "a = default_args\<lparr>instances := [''https://a.example'', ''https://c.example'']\<rparr>"
  define w where "w = \<lparr>round_http = example_http, round_wait = Returned\<rparr>"
  have h1: "instances a = [''https://a.example''] @ ''https://c.example'' # []"
    by (simp add: a_def)
  have g: "snd (get_instance_notifications example_http a ''https://a.example'') =
             Inr [add_url ''https://a.example'' alice_row]"
    by (simp add: a_def get_instance_notifications_def request_url_def default_args_def
          example_http_def)
  then have h2: "\<forall>j\<in>set [''https://a.example''].
                   \<exists>rows. snd (get_instance_notifications (round_http w) a j) = Inr rows"
    by (simp add: w_def)
  have h3: "round_http w (request_url a ''https://c.example'') = NotJSON"
    by (simp add: w_def a_def request_url_def default_args_def example_http_def)
  have nw: "\<not> watch a" by (simp add: a_def default_args_def)
  from json_failure_exits[OF h1 h2 h3, of utc_platform "[]"] nw h1 g h3
  show ?thesis by (simp add: a_def w_def)
qed

lemma watch_loop_interrupt:
  assumes "\<forall>w'\<in>set before. snd (watch_body pf a w') = Inr ()"
    and "snd (watch_body pf a w) = Inl KeyboardInterrupt"
  shows "snd (watch_loop pf a (before @ w # later)) = Some 0"
  using assms(1)
proof (induction before)
  case Nil
  then show ?case using assms(2) by (cases "watch_body pf a w") auto
next
  case (Cons b before)
  then show ?case by (cases "watch_body pf a b") (auto split: prod.splits)
qed

text \<open>
  Claim C9, as the code has it. In watch mode a keyboard interrupt that is raised inside
  the \<^verbatim>\<open>try\<close> statement, after rounds that ended in peace, ends the process with the status
  0. In a single run the interrupt leaves the program as an exception that nothing
  catches, and the process ends with the status 130.
\<close>

theorem interrupt_exit_status:
  "(watch a \<longrightarrow> (\<forall>w'\<in>set before. snd (watch_body pf a w') = Inr ()) \<longrightarrow>
      snd (watch_body pf a w) = Inl KeyboardInterrupt \<longrightarrow>
      snd (main pf a (before @ w # later)) = Some 0) \<and>
   (\<not> watch a \<longrightarrow> snd (show_data pf (round_http w) a) = Inl KeyboardInterrupt \<longrightarrow>
      snd (main pf a (w # later)) = Some 130)"
proof (intro conjI impI)
  assume "watch a" "\<forall>w'\<in>set before. snd (watch_body pf a w') = Inr ()"
    "snd (watch_body pf a w) = Inl KeyboardInterrupt"
  then show "snd (main pf a (before @ w # later)) = Some 0"
    using watch_loop_interrupt[of before pf a w later] by (simp add: main_def)
next
  assume "\<not> watch a" "snd (show_data pf (round_http w) a) = Inl KeyboardInterrupt"
  then show "snd (main pf a (w # later)) = Some 130"
    by (cases "show_data pf (round_http w) a") (auto simp: main_def)
qed

theorem interrupt_exit_status_witness:
  "watch (default_args\<lparr>watch := True\<rparr>) \<and>
   snd (watch_body utc_platform (default_args\<lparr>watch := True\<rparr>)
          \<lparr>round_http = example_http, round_wait = Returned\<rparr>) = Inr () \<and>
   snd (watch_body utc_platform (default_args\<lparr>watch := True\<rparr>)
          \<lparr>round_http = example_http, round_wait = Interrupted\<rparr>) = Inl KeyboardInterrupt \<and>
   snd (main utc_platform (default_args\<lparr>watch := True\<rparr>)
          ([\<lparr>round_http = example_http, round_wait = Returned\<rparr>]
             @ \<lparr>round_http = example_http, round_wait = Interrupted\<rparr> # [])) = Some 0 \<and>
   \<not> watch default_args \<and>
   snd (show_data utc_platform (round_http \<lparr>round_http = (\<lambda>url. Failed KeyboardInterrupt),
          round_wait = Returned\<rparr>) default_args) = Inl KeyboardInterrupt \<and>
   snd (main utc_platform default_args
          (\<lparr>round_http = (\<lambda>url. Failed KeyboardInterrupt), round_wait = Returned\<rparr> # [])) = Some 130"
proof -
  have h1: "watch (default_args\<lparr>watch := True\<rparr>)" by simp
  have b: "snd (watch_body utc_platform (default_args\<lparr>watch := True\<rparr>)
          \<lparr>round_http = example_http, round_wait = Returned\<rparr>) = Inr ()"
    by code_simp
  then have h2: "\<forall>w'\<in>set [\<lparr>round_http = example_http, round_wait = Returned\<rparr>].
          snd (watch_body utc_platform (default_args\<lparr>watch := True\<rparr>) w') = Inr ()"
    by simp
  have h3: "snd (watch_body utc_platform (default_args\<lparr>watch := True\<rparr>)
          \<lparr>round_http = example_http, round_wait = Interrupted\<rparr>) = Inl KeyboardInterrupt"
    by code_simp
  have h4: "\<not> watch default_args" by (simp add: default_args_def)
  have h5: "snd (show_data utc_platform (round_http \<lparr>round_http = (\<lambda>url. Failed KeyboardInterrupt),
          round_wait = Returned\<rparr>) default_args) = Inl KeyboardInterrupt"
    by (simp add: show_data_def data_of_instances_def get_instance_notifications_def
          default_args_def)
  from interrupt_exit_status[of "default_args\<lparr>watch := True\<rparr>"
        "[\<lparr>round_http = example_http, round_wait = Returned\<rparr>]" utc_platform
        "\<lparr>round_http = example_http, round_wait = Interrupted\<rparr>" "[]"] h1 h2 h3
  have c1: "snd (main utc_platform (default_args\<lparr>watch := True\<rparr>)
          ([\<lparr>round_http = example_http, round_wait = Returned\<rparr>]
             @ \<lparr>round_http = example_http, round_wait = Interrupted\<rparr> # [])) = Some 0"
    by blast
  from interrupt_exit_status[of default_args "[]" utc_platform
        "\<lparr>round_http = (\<lambda>url. Failed KeyboardInterrupt), round_wait = Returned\<rparr>" "[]"] h4 h5
  have c2: "snd (main utc_platform default_args
          (\<lparr>round_http = (\<lambda>url. Failed KeyboardInterrupt), round_wait = Returned\<rparr> # [])) = Some 130"
    by blast
  from h1 b h3 c1 h4 h5 c2 show ?thesis by blast
qed

text \<open>
  The claim C9 as it is stated fails in a single run: an interrupt during the request
  ends the process with the status 130, not 0.
\<close>

theorem single_run_interrupt_counterexample:
  "main utc_platform default_args
     [\<lparr>round_http = (\<lambda>url. Failed KeyboardInterrupt), round_wait = Returned\<rparr>] = ([], Some 130)"
  by (simp add: main_def show_data_def data_of_instances_def get_instance_notifications_def
        default_args_def)

end
